theory Spec2Isabelle
  imports Complex_Main
begin

section \<open>JavaScript numbers\<close>

text \<open>
  Every quantity of the program is a JavaScript number. A finite double is idealised as
  a real (no rounding, no overflow, a single zero); the three special values that the
  program can produce are kept: a division by zero gives an infinity or \<open>NaN\<close>, and
  arithmetic on \<open>undefined\<close> gives \<open>NaN\<close>. Comparisons with \<open>NaN\<close> are false.
\<close>

datatype jsnum = Num real | PosInf | NegInf | NaN

fun jneg :: "jsnum \<Rightarrow> jsnum" where
  "jneg (Num a) = Num (- a)"
| "jneg PosInf = NegInf"
| "jneg NegInf = PosInf"
| "jneg NaN = NaN"

fun jadd :: "jsnum \<Rightarrow> jsnum \<Rightarrow> jsnum" where
  "jadd (Num a) (Num b) = Num (a + b)"
| "jadd (Num a) PosInf = PosInf"
| "jadd (Num a) NegInf = NegInf"
| "jadd (Num a) NaN = NaN"
| "jadd PosInf (Num b) = PosInf"
| "jadd PosInf PosInf = PosInf"
| "jadd PosInf NegInf = NaN"
| "jadd PosInf NaN = NaN"
| "jadd NegInf (Num b) = NegInf"
| "jadd NegInf PosInf = NaN"
| "jadd NegInf NegInf = NegInf"
| "jadd NegInf NaN = NaN"
| "jadd NaN b = NaN"

definition jsub :: "jsnum \<Rightarrow> jsnum \<Rightarrow> jsnum" where
  "jsub a b = jadd a (jneg b)"

fun jmul :: "jsnum \<Rightarrow> jsnum \<Rightarrow> jsnum" where
  "jmul (Num a) (Num b) = Num (a * b)"
| "jmul (Num a) PosInf = (if a = 0 then NaN else if 0 < a then PosInf else NegInf)"
| "jmul (Num a) NegInf = (if a = 0 then NaN else if 0 < a then NegInf else PosInf)"
| "jmul (Num a) NaN = NaN"
| "jmul PosInf (Num b) = (if b = 0 then NaN else if 0 < b then PosInf else NegInf)"
| "jmul PosInf PosInf = PosInf"
| "jmul PosInf NegInf = NegInf"
| "jmul PosInf NaN = NaN"
| "jmul NegInf (Num b) = (if b = 0 then NaN else if 0 < b then NegInf else PosInf)"
| "jmul NegInf PosInf = NegInf"
| "jmul NegInf NegInf = PosInf"
| "jmul NegInf NaN = NaN"
| "jmul NaN b = NaN"

fun jdiv :: "jsnum \<Rightarrow> jsnum \<Rightarrow> jsnum" where
  "jdiv (Num a) (Num b) =
     (if b = 0 then (if a = 0 then NaN else if 0 < a then PosInf else NegInf)
      else Num (a / b))"
| "jdiv (Num a) PosInf = Num 0"
| "jdiv (Num a) NegInf = Num 0"
| "jdiv (Num a) NaN = NaN"
| "jdiv PosInf (Num b) = (if 0 \<le> b then PosInf else NegInf)"
| "jdiv PosInf PosInf = NaN"
| "jdiv PosInf NegInf = NaN"
| "jdiv PosInf NaN = NaN"
| "jdiv NegInf (Num b) = (if 0 \<le> b then NegInf else PosInf)"
| "jdiv NegInf PosInf = NaN"
| "jdiv NegInf NegInf = NaN"
| "jdiv NegInf NaN = NaN"
| "jdiv NaN b = NaN"

text \<open>The relational operators \<open><\<close> and \<open><=\<close>; \<open>a > b\<close> is \<open>b < a\<close> and \<open>a >= b\<close> is \<open>b <= a\<close>.\<close>

fun jlt :: "jsnum \<Rightarrow> jsnum \<Rightarrow> bool" where
  "jlt (Num a) (Num b) = (a < b)"
| "jlt (Num a) PosInf = True"
| "jlt (Num a) NegInf = False"
| "jlt (Num a) NaN = False"
| "jlt PosInf b = False"
| "jlt NegInf (Num b) = True"
| "jlt NegInf PosInf = True"
| "jlt NegInf NegInf = False"
| "jlt NegInf NaN = False"
| "jlt NaN b = False"

fun jle :: "jsnum \<Rightarrow> jsnum \<Rightarrow> bool" where
  "jle (Num a) (Num b) = (a \<le> b)"
| "jle (Num a) PosInf = True"
| "jle (Num a) NegInf = False"
| "jle (Num a) NaN = False"
| "jle PosInf (Num b) = False"
| "jle PosInf PosInf = True"
| "jle PosInf NegInf = False"
| "jle PosInf NaN = False"
| "jle NegInf (Num b) = True"
| "jle NegInf PosInf = True"
| "jle NegInf NegInf = True"
| "jle NegInf NaN = False"
| "jle NaN b = False"

definition jgt :: "jsnum \<Rightarrow> jsnum \<Rightarrow> bool" where
  "jgt a b = jlt b a"

definition jge :: "jsnum \<Rightarrow> jsnum \<Rightarrow> bool" where
  "jge a b = jle b a"

text \<open>Strict equality \<open>===\<close> on numbers: \<open>NaN\<close> equals nothing, itself included.\<close>

definition jeq :: "jsnum \<Rightarrow> jsnum \<Rightarrow> bool" where
  "jeq a b = (a \<noteq> NaN \<and> a = b)"

text \<open>
  A variable that may hold \<open>undefined\<close> is an option (\<open>None\<close> is \<open>undefined\<close>); the
  arithmetic and relational operators convert their operand with \<open>ToNumber\<close>, which
  maps \<open>undefined\<close> to \<open>NaN\<close>.
\<close>

fun ToNumber :: "jsnum option \<Rightarrow> jsnum" where
  "ToNumber None = NaN"
| "ToNumber (Some x) = x"

section \<open>RiskManager\<close>

record RiskManager =
  initialBalance :: jsnum
  currentBalance :: jsnum
  dailyStartBalance :: jsnum
  weeklyStartBalance :: jsnum
  monthlyStartBalance :: jsnum
  consecutiveLosses :: nat
  tradingEnabled :: bool

text \<open>
  The limits are assigned once, by the constructor, and no code of the repository writes
  them afterwards; they are constants here.
\<close>

definition dailyLossLimit :: jsnum where
  "dailyLossLimit = Num (- 3)"

definition weeklyDrawdownLimit :: jsnum where
  "weeklyDrawdownLimit = Num (- 8)"

definition monthlyKillSwitch :: jsnum where
  "monthlyKillSwitch = Num (- 15)"

definition maxDrawdownAlert :: jsnum where
  "maxDrawdownAlert = Num (- 12)"

definition positionRiskPercentage :: jsnum where
  "positionRiskPercentage = Num (1 / 2)"

definition stopLossPercentage :: jsnum where
  "stopLossPercentage = Num 1"

definition newRiskManager :: "jsnum \<Rightarrow> RiskManager" where
  "newRiskManager b =
     \<lparr> initialBalance = b, currentBalance = b, dailyStartBalance = b,
       weeklyStartBalance = b, monthlyStartBalance = b,
       consecutiveLosses = 0, tradingEnabled = True \<rparr>"

definition getDailyDrawdown :: "RiskManager \<Rightarrow> jsnum" where
  "getDailyDrawdown rm =
     jmul (jdiv (jsub (currentBalance rm) (dailyStartBalance rm)) (dailyStartBalance rm))
          (Num 100)"

definition getWeeklyDrawdown :: "RiskManager \<Rightarrow> jsnum" where
  "getWeeklyDrawdown rm =
     jmul (jdiv (jsub (currentBalance rm) (weeklyStartBalance rm)) (weeklyStartBalance rm))
          (Num 100)"

definition getMonthlyDrawdown :: "RiskManager \<Rightarrow> jsnum" where
  "getMonthlyDrawdown rm =
     jmul (jdiv (jsub (currentBalance rm) (monthlyStartBalance rm)) (monthlyStartBalance rm))
          (Num 100)"

text \<open>\<open>canTrade\<close> returns its verdict and the manager it leaves behind.\<close>

definition canTrade :: "RiskManager \<Rightarrow> bool \<times> RiskManager" where
  "canTrade rm =
     (if \<not> tradingEnabled rm then (False, rm)
      else if jle (getDailyDrawdown rm) dailyLossLimit
        then (False, rm\<lparr>tradingEnabled := False\<rparr>)
      else if jle (getMonthlyDrawdown rm) monthlyKillSwitch
        then (False, rm\<lparr>tradingEnabled := False\<rparr>)
      else if 3 \<le> consecutiveLosses rm then (False, rm)
      else (True, rm))"

definition calculatePositionSize :: "RiskManager \<Rightarrow> jsnum" where
  "calculatePositionSize rm =
     (let riskAmount = jmul (currentBalance rm) (jdiv positionRiskPercentage (Num 100))
      in if jle (getWeeklyDrawdown rm) weeklyDrawdownLimit
         then jmul riskAmount (Num (7 / 10))
         else riskAmount)"

definition recordTrade :: "jsnum \<Rightarrow> RiskManager \<Rightarrow> RiskManager" where
  "recordTrade profit rm =
     (let rm1 = rm\<lparr>currentBalance := jadd (currentBalance rm) profit\<rparr>
      in if jlt profit (Num 0)
         then rm1\<lparr>consecutiveLosses := consecutiveLosses rm1 + 1\<rparr>
         else rm1\<lparr>consecutiveLosses := 0\<rparr>)"

definition resetDaily :: "RiskManager \<Rightarrow> RiskManager" where
  "resetDaily rm = rm\<lparr>dailyStartBalance := currentBalance rm\<rparr>"

definition resetWeekly :: "RiskManager \<Rightarrow> RiskManager" where
  "resetWeekly rm = rm\<lparr>weeklyStartBalance := currentBalance rm\<rparr>"

definition resetMonthly :: "RiskManager \<Rightarrow> RiskManager" where
  "resetMonthly rm = rm\<lparr>monthlyStartBalance := currentBalance rm\<rparr>"

section \<open>DataEngine\<close>

record asset =
  symbol :: string
  name :: string
  price :: jsnum
  basePrice :: jsnum

record candle =
  time :: int
  open' :: jsnum
  high :: jsnum
  low :: jsnum
  close :: jsnum
  volume :: jsnum

datatype trend = bullish | bearish

record indicators =
  rsi :: jsnum
  ma9 :: jsnum
  ma21 :: jsnum
  avgVolume :: jsnum
  currentVolume :: jsnum
  volatility :: jsnum
  trend :: trend

text \<open>
  Of the DataEngine the engine reads the asset list and the indicator table; the candle
  history is an argument of \<open>calculateRSI\<close>.
\<close>

record DataEngine =
  assets :: "asset list"
  indicators :: "string \<Rightarrow> indicators option"

text \<open>The asset list as the constructor writes it.\<close>

definition assetBTC :: asset where
  "assetBTC = \<lparr> symbol = ''BTC'', name = ''Bitcoin'', price = Num 65000, basePrice = Num 65000 \<rparr>"

definition assetETH :: asset where
  "assetETH = \<lparr> symbol = ''ETH'', name = ''Ethereum'', price = Num 3200, basePrice = Num 3200 \<rparr>"

definition assetSOL :: asset where
  "assetSOL = \<lparr> symbol = ''SOL'', name = ''Solana'', price = Num 150, basePrice = Num 150 \<rparr>"

definition constructedAssets :: "asset list" where
  "constructedAssets = [assetBTC, assetETH, assetSOL]"

text \<open>
  \<open>calculateRSI\<close>: the loop runs \<open>i\<close> from \<open>history.length - period\<close> up to
  \<open>history.length - 1\<close>, that is \<open>period\<close> times; the guard before it gives
  \<open>1 \<le> i\<close>, so \<open>history[i - 1]\<close> exists. The accumulator is \<open>(gains, losses)\<close>.
\<close>

fun rsiLoop :: "candle list \<Rightarrow> nat \<Rightarrow> nat \<Rightarrow> jsnum \<times> jsnum \<Rightarrow> jsnum \<times> jsnum" where
  "rsiLoop history i 0 (gains, losses) = (gains, losses)"
| "rsiLoop history i (Suc n) (gains, losses) =
     (let change = jsub (close (history ! i)) (close (history ! (i - 1)))
      in if jgt change (Num 0)
         then rsiLoop history (Suc i) n (jadd gains change, losses)
         else rsiLoop history (Suc i) n (gains, jsub losses change))"

definition calculateRSI :: "candle list \<Rightarrow> nat \<Rightarrow> jsnum" where
  "calculateRSI history period =
     (if length history < period + 1 then Num 50
      else
        (case rsiLoop history (length history - period) period (Num 0, Num 0) of
          (gains, losses) \<Rightarrow>
            (let avgGain = jdiv gains (Num (real period));
                 avgLoss = jdiv losses (Num (real period))
             in if jeq avgLoss (Num 0) then Num 100
                else (let rs = jdiv avgGain avgLoss
                      in jsub (Num 100) (jdiv (Num 100) (jadd (Num 1) rs))))))"

definition getAsset :: "DataEngine \<Rightarrow> string \<Rightarrow> asset option" where
  "getAsset de s = find (\<lambda>a. asset.symbol a = s) (assets de)"

definition getIndicators :: "DataEngine \<Rightarrow> string \<Rightarrow> indicators option" where
  "getIndicators de s = indicators de s"

section \<open>TradingEngine\<close>

datatype direction = LONG | SHORT

datatype closeReason = TP2 | SL | MANUAL

datatype error = TypeError

text \<open>
  A position. The source's \<open>id\<close> and \<open>size\<close> are \<open>id_ms\<close> and \<open>size_notional\<close> here
  (a primed name is a local variable of the source that has the name of a field);
  \<open>checklistScore\<close> is the property \<open>runAnalysisCycle\<close> adds after opening.
\<close>

record position =
  id_ms :: int
  slot :: nat
  symbol :: string
  direction :: direction
  pattern :: string
  entryPrice :: jsnum
  stopLoss :: jsnum
  tp1 :: jsnum
  tp2 :: jsnum
  size_notional :: jsnum
  tp1Hit :: bool
  openTime :: int
  pnl :: jsnum
  checklistScore :: "nat option"

text \<open>
  A closed trade is the position's fields (\<open>...position\<close>) and four more; \<open>finalPnl\<close>
  is \<open>None\<close> when the variable was left \<open>undefined\<close>.
\<close>

record closedTrade = position +
  closePrice :: jsnum
  closeTime :: int
  closeReason :: closeReason
  finalPnl :: "jsnum option"

datatype levelState = waiting | analyzing | passed | failed

record analysisState =
  level1 :: levelState
  level2 :: levelState
  level3 :: levelState
  level4 :: levelState

record TradingEngine =
  dataEngine :: DataEngine
  riskManager :: RiskManager
  positions :: "position list"
  closedTrades :: "closedTrade list"
  isRunning :: bool
  analysisState :: analysisState
  fearGreedIndex :: jsnum
  lastAnalysisTime :: int
  checklist :: "(nat \<times> nat) option"

definition maxPositions :: nat where
  "maxPositions = 2"

definition allWaiting :: analysisState where
  "allWaiting = \<lparr> level1 = waiting, level2 = waiting, level3 = waiting, level4 = waiting \<rparr>"

text \<open>
  The constructor, given the DataEngine its own constructor built (whose prices and
  indicators come from a hundred random candles).
\<close>

definition newTradingEngine :: "DataEngine \<Rightarrow> jsnum \<Rightarrow> TradingEngine" where
  "newTradingEngine de b =
     \<lparr> dataEngine = de, riskManager = newRiskManager b, positions = [],
       closedTrades = [], isRunning = False, analysisState = allWaiting,
       fearGreedIndex = Num 50, lastAnalysisTime = 0, checklist = None \<rparr>"

definition start :: "TradingEngine \<Rightarrow> TradingEngine" where
  "start e = e\<lparr>isRunning := True\<rparr>"

definition stop :: "TradingEngine \<Rightarrow> TradingEngine" where
  "stop e = e\<lparr>isRunning := False\<rparr>"

text \<open>
  \<open>openPosition\<close>; \<open>now\<close> is what \<open>Date.now()\<close> returns (to both of its calls). It
  returns the position and the engine with the position pushed.
\<close>

definition openPosition ::
  "asset \<Rightarrow> direction \<Rightarrow> string \<Rightarrow> int \<Rightarrow> TradingEngine \<Rightarrow> position \<times> TradingEngine" where
  "openPosition asset dir pat now e =
     (let positionSize = calculatePositionSize (riskManager e);
          entryPrice' = price asset;
          slippage = jmul entryPrice' (Num (5 / 10000));
          actualEntry = (if dir = LONG then jadd entryPrice' slippage
                         else jsub entryPrice' slippage);
          stopLoss' = (if dir = LONG
                      then jmul actualEntry (jsub (Num 1) (jdiv stopLossPercentage (Num 100)))
                      else jmul actualEntry (jadd (Num 1) (jdiv stopLossPercentage (Num 100))));
          tp1' = (if dir = LONG then jmul actualEntry (Num (1005 / 1000))
                 else jmul actualEntry (Num (995 / 1000)));
          tp2' = (if dir = LONG then jmul actualEntry (Num (1012 / 1000))
                 else jmul actualEntry (Num (988 / 1000)));
          position = \<lparr> id_ms = now, slot = length (positions e) + 1,
                       symbol = asset.symbol asset, direction = dir, pattern = pat,
                       entryPrice = actualEntry, stopLoss = stopLoss', tp1 = tp1', tp2 = tp2',
                       size_notional = positionSize, tp1Hit = False, openTime = now,
                       pnl = Num 0, checklistScore = None \<rparr>
      in (position, e\<lparr>positions := positions e @ [position]\<rparr>))"

text \<open>
  \<open>closePosition\<close>. Reading \<open>position.symbol\<close> of a missing element, or
  \<open>asset.price\<close> of a missing asset, throws a TypeError (\<open>Inl\<close>; the engine a throw
  leaves behind is not modelled). \<open>finalPnl\<close> is declared without a value and assigned
  in the \<open>TP2\<close> and \<open>SL\<close> branches only. \<open>splice(index, 1)\<close> removes the element
  at \<open>index\<close>.
\<close>

definition closePosition ::
  "nat \<Rightarrow> closeReason \<Rightarrow> int \<Rightarrow> TradingEngine \<Rightarrow> error + TradingEngine" where
  "closePosition index reason now e =
     (if length (positions e) \<le> index then Inl TypeError
      else
        (let position = positions e ! index
         in case getAsset (dataEngine e) (position.symbol position) of
              None \<Rightarrow> Inl TypeError
            | Some asset \<Rightarrow>
                (let finalPnl' =
                       (case reason of
                          TP2 \<Rightarrow> Some (jmul (jmul (size_notional position) (Num (1 / 2)))
                                            (Num (12 / 1000)))
                        | SL \<Rightarrow>
                            (if direction position = LONG
                             then Some (jmul (jdiv (jsub (price asset) (entryPrice position))
                                                   (entryPrice position))
                                             (size_notional position))
                             else Some (jmul (jdiv (jsub (entryPrice position) (price asset))
                                                   (entryPrice position))
                                             (size_notional position)))
                        | MANUAL \<Rightarrow> None);
                     rm = recordTrade (ToNumber finalPnl') (riskManager e);
                     trade = \<lparr> id_ms = id_ms position, slot = slot position,
                               symbol = position.symbol position,
                               direction = direction position, pattern = pattern position,
                               entryPrice = entryPrice position, stopLoss = stopLoss position,
                               tp1 = tp1 position, tp2 = tp2 position,
                               size_notional = size_notional position,
                               tp1Hit = tp1Hit position, openTime = openTime position,
                               pnl = pnl position, checklistScore = checklistScore position,
                               closePrice = price asset, closeTime = now,
                               closeReason = reason, finalPnl = finalPnl' \<rparr>
                 in Inr (e\<lparr> riskManager := rm,
                           closedTrades := closedTrades e @ [trade],
                           positions := take index (positions e)
                                        @ drop (Suc index) (positions e) \<rparr>))))"

definition manualClosePosition :: "int \<Rightarrow> int \<Rightarrow> TradingEngine \<Rightarrow> error + TradingEngine" where
  "manualClosePosition slotIndex now e =
     (if 0 \<le> slotIndex \<and> slotIndex < int (length (positions e))
      then closePosition (nat slotIndex) MANUAL now e
      else Inr e)"

text \<open>
  The callback of \<open>updatePositions\<close> for the position at \<open>index\<close>. The position is an
  object shared with the array, so the writes to \<open>pnl\<close>, \<open>tp1Hit\<close> and \<open>stopLoss\<close>
  are writes to the array element; the stop-loss test reads the callback's own reference,
  also after a \<open>TP2\<close> close has removed the element from the array. \<open>livePnl\<close> is
  the callback's expression for the P&L, and \<open>crossesTP1\<close>, \<open>crossesTP2\<close> and
  \<open>crossesSL\<close> are its three tests of the price against the levels.
\<close>

definition livePnl :: "position \<Rightarrow> jsnum \<Rightarrow> jsnum" where
  "livePnl position currentPrice =
     (if direction position = LONG
      then jmul (jdiv (jsub currentPrice (entryPrice position)) (entryPrice position))
                (size_notional position)
      else jmul (jdiv (jsub (entryPrice position) currentPrice) (entryPrice position))
                (size_notional position))"

definition crossesTP1 :: "position \<Rightarrow> jsnum \<Rightarrow> bool" where
  "crossesTP1 position currentPrice =
     (if direction position = LONG then jge currentPrice (tp1 position)
      else jle currentPrice (tp1 position))"

definition crossesTP2 :: "position \<Rightarrow> jsnum \<Rightarrow> bool" where
  "crossesTP2 position currentPrice =
     (if direction position = LONG then jge currentPrice (tp2 position)
      else jle currentPrice (tp2 position))"

definition crossesSL :: "position \<Rightarrow> jsnum \<Rightarrow> bool" where
  "crossesSL position currentPrice =
     (if direction position = LONG then jle currentPrice (stopLoss position)
      else jge currentPrice (stopLoss position))"

text \<open>
  The position after the callback has written its live P&L and applied the TP1 rule
  (mark \<open>tp1Hit\<close>, move the stop to the entry price).
\<close>

definition afterTP1Check :: "position \<Rightarrow> jsnum \<Rightarrow> position" where
  "afterTP1Check position currentPrice =
     (let p1 = position\<lparr>pnl := livePnl position currentPrice\<rparr>
      in if \<not> tp1Hit p1 \<and> crossesTP1 p1 currentPrice
         then p1\<lparr>tp1Hit := True, stopLoss := entryPrice p1\<rparr>
         else p1)"

definition visitPosition :: "nat \<Rightarrow> int \<Rightarrow> TradingEngine \<Rightarrow> error + TradingEngine" where
  "visitPosition index now e =
     (let position = positions e ! index
      in case getAsset (dataEngine e) (position.symbol position) of
           None \<Rightarrow> Inl TypeError
         | Some asset \<Rightarrow>
             (let currentPrice = price asset;
                  p2 = afterTP1Check position currentPrice;
                  rm = (if \<not> tp1Hit position \<and> crossesTP1 position currentPrice
                        then recordTrade (jmul (jmul (size_notional position) (Num (1 / 2)))
                                               (Num (5 / 1000)))
                                         (riskManager e)
                        else riskManager e);
                  e2 = e\<lparr>positions := (positions e)[index := p2], riskManager := rm\<rparr>
              in case (if crossesTP2 p2 currentPrice then closePosition index TP2 now e2
                       else Inr e2) of
                   Inl err \<Rightarrow> Inl err
                 | Inr e3 \<Rightarrow>
                     (if crossesSL p2 currentPrice then closePosition index SL now e3
                      else Inr e3)))"

text \<open>
  \<open>forEach\<close> reads the length once, then visits \<open>k = 0, 1, ...\<close> below that length,
  skipping an index that the array no longer has. The first argument counts the indices
  still to come.
\<close>

fun forEachPosition :: "nat \<Rightarrow> nat \<Rightarrow> int \<Rightarrow> TradingEngine \<Rightarrow> error + TradingEngine" where
  "forEachPosition 0 k now e = Inr e"
| "forEachPosition (Suc n) k now e =
     (if k < length (positions e)
      then (case visitPosition k now e of
              Inl err \<Rightarrow> Inl err
            | Inr e' \<Rightarrow> forEachPosition n (Suc k) now e')
      else forEachPosition n (Suc k) now e)"

definition updatePositions :: "int \<Rightarrow> TradingEngine \<Rightarrow> error + TradingEngine" where
  "updatePositions now e = forEachPosition (length (positions e)) 0 now e"

text \<open>
  The price of an instrument is written by \<open>generateCandle\<close> (and, in the test suite, by
  direct assignment); \<open>setPrice\<close> is that assignment.
\<close>

definition setPrice :: "string \<Rightarrow> jsnum \<Rightarrow> TradingEngine \<Rightarrow> TradingEngine" where
  "setPrice s v e =
     e\<lparr>dataEngine := (dataEngine e)\<lparr>assets :=
          map (\<lambda>a. if asset.symbol a = s then a\<lparr>price := v\<rparr> else a)
              (assets (dataEngine e))\<rparr>\<rparr>"

section \<open>The analysis cycle\<close>

text \<open>
  The values that one cycle draws from outside: the results of its seven calls of
  \<open>Math.random()\<close> (each in the interval from 0 to 1, 1 excluded), in the order of the
  calls, and the hour that \<open>new Date().getHours()\<close> returns.
\<close>

record draws =
  assetDraw :: real
  patternDraw :: real
  alignmentDraw :: real
  signalDraw :: real
  checklistAlignmentDraw :: real
  entryQualityDraw :: real
  orderFlowDraw :: real
  hour :: nat

text \<open>
  What \<open>runAnalysisCycle\<close> returns: \<open>null\<close>, a rejection with its level and reason, a
  rejection by the checklist with its score, or the opened position.
\<close>

datatype cycleResult =
    Null
  | Rejected asset nat string
  | RejectedChecklist asset nat
  | Approved asset position

text \<open>
  \<open>array[Math.floor(r * array.length)]\<close>; an index outside the array gives
  \<open>undefined\<close>, which is \<open>None\<close>.
\<close>

definition pick :: "real \<Rightarrow> 'a list \<Rightarrow> 'a option" where
  "pick r xs =
     (let i = \<lfloor>r * real (length xs)\<rfloor>
      in if 0 \<le> i \<and> i < int (length xs) then Some (xs ! nat i) else None)"

definition selectAsset :: "real \<Rightarrow> TradingEngine \<Rightarrow> asset option" where
  "selectAsset r e =
     (let availableAssets =
            filter (\<lambda>a. \<not> list_ex (\<lambda>pos. position.symbol pos = asset.symbol a) (positions e))
                   (assets (dataEngine e))
      in if length availableAssets = 0 then None
         else if length (positions e) = 1 then pick r availableAssets
         else pick r availableAssets)"

text \<open>
  A level returns \<open>Inl reason\<close> for \<open>{passed: false, reason}\<close> and \<open>Inr\<close> of what it
  found for \<open>{passed: true, ...}\<close>. A field of a missing indicator record is
  \<open>undefined\<close>.
\<close>

definition level1SafetyGates :: "asset \<Rightarrow> TradingEngine \<Rightarrow> string + unit" where
  "level1SafetyGates asset e =
     (let ind = getIndicators (dataEngine e) (asset.symbol asset);
          rsi' = ToNumber (map_option rsi ind);
          currentVolume' = ToNumber (map_option currentVolume ind);
          avgVolume' = ToNumber (map_option avgVolume ind)
      in if jlt rsi' (Num 30) \<or> jgt rsi' (Num 70) then Inl ''RSI outside safe range''
         else if jlt currentVolume' (jmul avgVolume' (Num (1 / 2)))
           then Inl ''Insufficient volume''
         else if 3 \<le> consecutiveLosses (riskManager e)
           then Inl ''Max consecutive losses reached''
         else if jle (getDailyDrawdown (riskManager e)) dailyLossLimit
           then Inl ''Daily loss limit reached''
         else if jle (getMonthlyDrawdown (riskManager e)) maxDrawdownAlert
           then Inl ''Max drawdown alert triggered''
         else Inr ())"

definition patterns :: "string list" where
  "patterns = [''Liquidity_Sweep'', ''Break_of_Block'', ''Anti_Order_Block'',
               ''Chain_Block'', ''Swing_Block'', ''Impulse_Block'']"

definition level2StructuralAnalysis ::
  "asset \<Rightarrow> real \<Rightarrow> real \<Rightarrow> TradingEngine \<Rightarrow> string + direction \<times> string option" where
  "level2StructuralAnalysis asset rPattern rAlignment e =
     (let ind = getIndicators (dataEngine e) (asset.symbol asset);
          dir = (if map_option trend ind = Some bullish then LONG else SHORT);
          selectedPattern = pick rPattern patterns;
          alignmentScore = rAlignment
      in if alignmentScore < 4 / 10 then Inl ''Insufficient timeframe alignment''
         else Inr (dir, selectedPattern))"

definition level3RiskAssessment ::
  "asset \<Rightarrow> direction \<Rightarrow> real \<Rightarrow> TradingEngine \<Rightarrow> string + jsnum" where
  "level3RiskAssessment asset dir rSignal e =
     (let positionSize = calculatePositionSize (riskManager e);
          riskRewardRatio = (25 / 10 :: real);
          signalQuality = rSignal
      in if riskRewardRatio < 2 then Inl ''Risk/Reward ratio too low''
         else if signalQuality < 1 / 2 then Inl ''Entry signal quality insufficient''
         else Inr positionSize)"

definition level4SentimentCheck :: "TradingEngine \<Rightarrow> string + unit" where
  "level4SentimentCheck e =
     (if jlt (fearGreedIndex e) (Num 20) \<or> jgt (fearGreedIndex e) (Num 80)
      then Inl ''Extreme market sentiment''
      else Inr ())"

text \<open>
  The 23 checks of \<open>run23PointChecklist\<close> in their order, each \<open>True\<close> when it passed;
  the score counts them. The names of the checks serve the display only.
\<close>

definition checklistPoints :: "asset \<Rightarrow> direction \<Rightarrow> draws \<Rightarrow> TradingEngine \<Rightarrow> bool list" where
  "checklistPoints asset dir d e =
     (let ind = getIndicators (dataEngine e) (asset.symbol asset);
          rsi' = ToNumber (map_option rsi ind);
          currentVolume' = ToNumber (map_option currentVolume ind);
          avgVolume' = ToNumber (map_option avgVolume ind);
          volatility' = ToNumber (map_option volatility ind);
          alignmentScore = (if 3 / 10 < checklistAlignmentDraw d then 4 else 2 :: nat);
          entryQuality = (3 / 10 < entryQualityDraw d);
          orderFlow = (4 / 10 < orderFlowDraw d);
          currentExposure = foldl (\<lambda>sum pos. jadd sum (size_notional pos)) (Num 0) (positions e);
          exposureOK = jlt currentExposure
                           (jmul (currentBalance (riskManager e)) (Num (7 / 10)));
          goodSession = ((13 \<le> hour d \<and> hour d \<le> 20) \<or> (7 \<le> hour d \<and> hour d \<le> 12));
          sentimentOK = (jge (fearGreedIndex e) (Num 25) \<and> jle (fearGreedIndex e) (Num 75))
      in [ jge rsi' (Num 30) \<and> jle rsi' (Num 70),
           jge currentVolume' (jmul avgVolume' (Num 1)),
           consecutiveLosses (riskManager e) < 2,
           jgt (getDailyDrawdown (riskManager e)) (Num (- 3)),
           jgt (getMonthlyDrawdown (riskManager e)) (Num (- 12)),
           jgt volatility' (Num (1 / 2)) \<and> jlt volatility' (Num 5),
           0 < alignmentScore, 1 < alignmentScore, 2 < alignmentScore, 3 < alignmentScore,
           True, True,
           True, entryQuality, True, orderFlow, True,
           True, True, True, exposureOK,
           goodSession, sentimentOK ])"

definition run23PointChecklist ::
  "asset \<Rightarrow> direction \<Rightarrow> draws \<Rightarrow> TradingEngine \<Rightarrow> bool \<times> nat" where
  "run23PointChecklist asset dir d e =
     (let score = length (filter (\<lambda>c. c) (checklistPoints asset dir d e))
      in (20 \<le> score, score))"

text \<open>
  \<open>runAnalysisCycle\<close>, with \<open>now\<close> for \<open>Date.now()\<close>. It returns its result and the
  engine it leaves behind. The levels have no effect on the engine but their entry in
  \<open>analysisState\<close>; the reset of \<open>analysisState\<close> that an approved cycle schedules
  runs two seconds later and is not part of the call.
\<close>

text \<open>
  A pattern that is \<open>undefined\<close> (a draw outside the interval) is the empty string in
  the position. \<open>setChecklistScore\<close> is the assignment \<open>position.checklistScore = ...\<close> to the
  position just pushed; \<open>runCascade\<close> is the body of \<open>runAnalysisCycle\<close> from level 1
  on, for the asset selected.
\<close>

definition setChecklistScore :: "nat \<Rightarrow> TradingEngine \<Rightarrow> TradingEngine" where
  "setChecklistScore score e =
     e\<lparr>positions := butlast (positions e)
                     @ [(last (positions e))\<lparr>checklistScore := Some score\<rparr>]\<rparr>"

definition runCascade ::
  "asset \<Rightarrow> int \<Rightarrow> draws \<Rightarrow> TradingEngine \<Rightarrow> cycleResult \<times> TradingEngine" where
  "runCascade asset now d e =
     (case level1SafetyGates asset e of
        Inl reason \<Rightarrow>
          (Rejected asset 1 reason, e\<lparr>analysisState := (analysisState e)\<lparr>level1 := failed\<rparr>\<rparr>)
      | Inr u1 \<Rightarrow>
     (let e1 = e\<lparr>analysisState := (analysisState e)\<lparr>level1 := passed\<rparr>\<rparr>
      in case level2StructuralAnalysis asset (patternDraw d) (alignmentDraw d) e1 of
        Inl reason \<Rightarrow>
          (Rejected asset 2 reason, e1\<lparr>analysisState := (analysisState e1)\<lparr>level2 := failed\<rparr>\<rparr>)
      | Inr (dir, pat) \<Rightarrow>
     (let e2 = e1\<lparr>analysisState := (analysisState e1)\<lparr>level2 := passed\<rparr>\<rparr>
      in case level3RiskAssessment asset dir (signalDraw d) e2 of
        Inl reason \<Rightarrow>
          (Rejected asset 3 reason, e2\<lparr>analysisState := (analysisState e2)\<lparr>level3 := failed\<rparr>\<rparr>)
      | Inr positionSize \<Rightarrow>
     (let e3 = e2\<lparr>analysisState := (analysisState e2)\<lparr>level3 := passed\<rparr>\<rparr>
      in case level4SentimentCheck e3 of
        Inl reason \<Rightarrow>
          (Rejected asset 4 reason, e3\<lparr>analysisState := (analysisState e3)\<lparr>level4 := failed\<rparr>\<rparr>)
      | Inr u4 \<Rightarrow>
     (let e4 = e3\<lparr>analysisState := (analysisState e3)\<lparr>level4 := passed\<rparr>\<rparr>
      in case run23PointChecklist asset dir d e4 of
        (ok, score) \<Rightarrow>
          if \<not> ok then (RejectedChecklist asset score, e4)
          else (case openPosition asset dir (case pat of None \<Rightarrow> [] | Some s \<Rightarrow> s) now e4 of
                  (position, e5) \<Rightarrow>
                    (Approved asset (position\<lparr>checklistScore := Some score\<rparr>),
                     setChecklistScore score e5)))))))"

definition runAnalysisCycle ::
  "int \<Rightarrow> draws \<Rightarrow> TradingEngine \<Rightarrow> cycleResult \<times> TradingEngine" where
  "runAnalysisCycle now d e =
     (if \<not> isRunning e then (Null, e)
      else
        (case canTrade (riskManager e) of
           (ok, rm) \<Rightarrow>
             (let e1 = e\<lparr>riskManager := rm\<rparr>
              in if \<not> ok then (Null, e1)
                 else if maxPositions \<le> length (positions e1) then (Null, e1)
                 else if length (positions e1) = 1 \<and> \<not> tp1Hit (positions e1 ! 0)
                   then (Null, e1)
                 else if now - lastAnalysisTime e1 < 5000 then (Null, e1)
                 else
                   (let e2 = e1\<lparr>lastAnalysisTime := now, checklist := Some (0, 23)\<rparr>
                    in case selectAsset (assetDraw d) e2 of
                         None \<Rightarrow> (Null, e2)
                       | Some asset \<Rightarrow> runCascade asset now d e2))))"

section \<open>Notions used in the properties\<close>

subsection \<open>Finite numbers\<close>

fun isNum :: "jsnum \<Rightarrow> bool" where
  "isNum (Num a) = True"
| "isNum PosInf = False"
| "isNum NegInf = False"
| "isNum NaN = False"

fun realOf :: "jsnum \<Rightarrow> real" where
  "realOf (Num a) = a"
| "realOf PosInf = 0"
| "realOf NegInf = 0"
| "realOf NaN = 0"

subsection \<open>The RSI as the specification words it\<close>

text \<open>
  The close-to-close deltas of a series, and the RSI over the most recent \<open>period\<close> of
  them: gains are the sum of the positive deltas, losses the sum of the absolute values of
  the negative ones, each averaged over \<open>period\<close>.
\<close>

fun deltas :: "real list \<Rightarrow> real list" where
  "deltas (x # y # ys) = (y - x) # deltas (y # ys)"
| "deltas [x] = []"
| "deltas [] = []"

definition rsiSpec :: "real list \<Rightarrow> nat \<Rightarrow> real" where
  "rsiSpec closes period =
     (let ds = deltas (drop (length closes - (period + 1)) closes);
          avgGain = sum_list (filter (\<lambda>d. 0 < d) ds) / real period;
          avgLoss = sum_list (map abs (filter (\<lambda>d. d < 0) ds)) / real period
      in if avgLoss = 0 then 100 else 100 - 100 / (1 + avgGain / avgLoss))"

subsection \<open>Orderings of the price levels of a position\<close>

text \<open>The strict ordering of all four levels.\<close>

definition strictlyOrdered :: "position \<Rightarrow> bool" where
  "strictlyOrdered p =
     (if direction p = LONG
      then jlt (stopLoss p) (entryPrice p) \<and> jlt (entryPrice p) (tp1 p) \<and> jlt (tp1 p) (tp2 p)
      else jgt (stopLoss p) (entryPrice p) \<and> jgt (entryPrice p) (tp1 p) \<and> jgt (tp1 p) (tp2 p))"

text \<open>
  The ordering with the breakeven stop: entry, tp1 and tp2 strictly ordered; the stop
  strictly on the losing side of the entry until tp1 is hit, and at the entry from then on.
\<close>

definition levelsOrdered :: "position \<Rightarrow> bool" where
  "levelsOrdered p =
     (if direction p = LONG
      then jlt (entryPrice p) (tp1 p) \<and> jlt (tp1 p) (tp2 p)
           \<and> (if tp1Hit p then stopLoss p = entryPrice p else jlt (stopLoss p) (entryPrice p))
      else jgt (entryPrice p) (tp1 p) \<and> jgt (tp1 p) (tp2 p)
           \<and> (if tp1Hit p then stopLoss p = entryPrice p else jgt (stopLoss p) (entryPrice p)))"

subsection \<open>Reachable engine states\<close>

text \<open>
  An instrument price is positive and finite: \<open>generateCandle\<close> keeps it at or above 70
  percent of the base price. The states reachable by \<open>openPosition\<close> and
  \<open>updatePositions\<close> start from a new engine; between the calls any instrument may move
  to any positive finite price, and \<open>openPosition\<close> is given an asset of the engine.
\<close>

definition positivePrice :: "asset \<Rightarrow> bool" where
  "positivePrice a = (case price a of Num x \<Rightarrow> 0 < x | PosInf \<Rightarrow> False
                      | NegInf \<Rightarrow> False | NaN \<Rightarrow> False)"

definition pricesPositive :: "DataEngine \<Rightarrow> bool" where
  "pricesPositive de = list_all positivePrice (assets de)"

inductive reachable :: "TradingEngine \<Rightarrow> bool" where
  constructed: "pricesPositive de \<Longrightarrow> reachable (newTradingEngine de b)"
| priceMoved: "reachable e \<Longrightarrow> 0 < x \<Longrightarrow> reachable (setPrice s (Num x) e)"
| opened: "reachable e \<Longrightarrow> getAsset (dataEngine e) s = Some a
           \<Longrightarrow> reachable (snd (openPosition a d pat now e))"
| updated: "reachable e \<Longrightarrow> updatePositions now e = Inr e' \<Longrightarrow> reachable e'"

subsection \<open>Sequences of calls of the RiskManager\<close>

datatype rmCall =
    CallCanTrade
  | CallCalculatePositionSize
  | CallRecordTrade jsnum
  | CallResetDaily
  | CallResetWeekly
  | CallResetMonthly

text \<open>The manager after one call, and after a sequence of calls.\<close>

fun afterCall :: "rmCall \<Rightarrow> RiskManager \<Rightarrow> RiskManager" where
  "afterCall CallCanTrade rm = snd (canTrade rm)"
| "afterCall CallCalculatePositionSize rm = rm"
| "afterCall (CallRecordTrade profit) rm = recordTrade profit rm"
| "afterCall CallResetDaily rm = resetDaily rm"
| "afterCall CallResetWeekly rm = resetWeekly rm"
| "afterCall CallResetMonthly rm = resetMonthly rm"

fun afterCalls :: "rmCall list \<Rightarrow> RiskManager \<Rightarrow> RiskManager" where
  "afterCalls [] rm = rm"
| "afterCalls (c # cs) rm = afterCalls cs (afterCall c rm)"

subsection \<open>Example states\<close>

text \<open>A new engine over the constructor's asset list, with no indicators computed.\<close>

definition exampleEngine :: TradingEngine where
  "exampleEngine =
     newTradingEngine \<lparr> assets = constructedAssets, indicators = (\<lambda>s. None) \<rparr> (Num 10000)"

definition exampleDraws :: draws where
  "exampleDraws =
     \<lparr> assetDraw = 0, patternDraw = 1 / 2, alignmentDraw = 9 / 10, signalDraw = 9 / 10,
       checklistAlignmentDraw = 9 / 10, entryQualityDraw = 9 / 10, orderFlowDraw = 9 / 10,
       hour = 14 \<rparr>"

text \<open>
  The manager of the test "Daily Loss Limit Test" (balance 10000, current balance set to
  9650) after its \<open>canTrade\<close>, and the same after all three baseline resets.
\<close>

definition killedManager :: RiskManager where
  "killedManager = snd (canTrade ((newRiskManager (Num 10000))\<lparr>currentBalance := Num 9650\<rparr>))"

definition rebasedManager :: RiskManager where
  "rebasedManager = resetMonthly (resetWeekly (resetDaily killedManager))"

text \<open>A manager that has lost its whole balance in one recorded trade.\<close>

definition drainedManager :: RiskManager where
  "drainedManager = recordTrade (Num (- 10000)) (newRiskManager (Num 10000))"

text \<open>
  The example engine after \<open>openPosition(BTC, 'LONG', 'Test_Pattern')\<close>; the same with
  the price of BTC moved to 65100; and the example engine after a LONG on BTC and a SHORT
  on ETH have been opened.
\<close>

definition openedLong :: TradingEngine where
  "openedLong = snd (openPosition assetBTC LONG ''Test_Pattern'' 1 exampleEngine)"

definition manualCloseInput :: TradingEngine where
  "manualCloseInput = setPrice ''BTC'' (Num 65100) openedLong"

definition twoOpen :: TradingEngine where
  "twoOpen = snd (openPosition assetETH SHORT ''Pattern2'' 3
               (snd (openPosition assetBTC LONG ''Pattern1'' 1 exampleEngine)))"

text \<open>
  A run of the engine: the LONG on BTC is open; BTC moves to 65400, above tp1, and the
  positions are updated; a LONG on ETH is opened; then BTC moves to 66000, above its tp2,
  and ETH to 3220, between its tp1 and its tp2.
\<close>

definition tp1Reached :: TradingEngine where
  "tp1Reached = setPrice ''BTC'' (Num 65400) openedLong"

definition afterTP1 :: TradingEngine where
  "afterTP1 = (case updatePositions 2 tp1Reached of Inl err \<Rightarrow> tp1Reached | Inr e \<Rightarrow> e)"

definition twoLongs :: TradingEngine where
  "twoLongs = snd (openPosition assetETH LONG ''Pattern2'' 3 afterTP1)"

definition skipInput :: TradingEngine where
  "skipInput = setPrice ''ETH'' (Num 3220) (setPrice ''BTC'' (Num 66000) twoLongs)"

text \<open>A short candle history, flat candles with the closes 10, 12, 11 and 14.\<close>

definition candleAt :: "jsnum \<Rightarrow> candle" where
  "candleAt c = \<lparr> time = 0, open' = c, high = c, low = c, close = c, volume = Num 1000 \<rparr>"

definition exampleHistory :: "candle list" where
  "exampleHistory = map candleAt [Num 10, Num 12, Num 11, Num 14]"

text \<open>The example engine, started, with indicators that pass every gate.\<close>

definition readyEngine :: TradingEngine where
  "readyEngine =
     start (exampleEngine\<lparr>dataEngine := (dataEngine exampleEngine)\<lparr>indicators :=
       (\<lambda>s. Some \<lparr> rsi = Num 50, ma9 = Num 2, ma21 = Num 1, avgVolume = Num 100,
                     currentVolume = Num 150, volatility = Num 1, trend = bullish \<rparr>)\<rparr>\<rparr>)"

subsection \<open>Well-formed engine states\<close>

text \<open>All instrument prices are positive and finite, and all open positions have their
  levels ordered.\<close>

definition wellFormed :: "TradingEngine \<Rightarrow> bool" where
  "wellFormed e = (pricesPositive (dataEngine e) \<and> list_all levelsOrdered (positions e))"

section \<open>Properties of the RiskManager\<close>
subsection \<open>Facts about the number operations\<close>

lemma jgt_not_jle: "jgt a b \<Longrightarrow> \<not> jle a b"
  by (cases a; cases b) (simp_all add: jgt_def)

lemma jge_not_jlt: "jge a b \<Longrightarrow> \<not> jlt a b"
  by (cases a; cases b) (simp_all add: jge_def)

lemma jadd_NaN_right: "jadd a NaN = NaN"
  by (cases a) simp_all

lemma jmul_reduced: "jmul (jmul b (Num (5 / 1000))) (Num (7 / 10)) = jmul b (Num (35 / 10000))"
  by (cases b) simp_all

subsection \<open>The kill switch\<close>

lemma afterCall_disabled: "\<not> tradingEnabled rm \<Longrightarrow> \<not> tradingEnabled (afterCall c rm)"
  by (cases c) (simp_all add: canTrade_def recordTrade_def Let_def resetDaily_def
      resetWeekly_def resetMonthly_def)

lemma afterCalls_disabled: "\<not> tradingEnabled rm \<Longrightarrow> \<not> tradingEnabled (afterCalls cs rm)"
  by (induction cs arbitrary: rm) (simp_all add: afterCall_disabled)

lemma canTrade_disabled: "\<not> tradingEnabled rm \<Longrightarrow> canTrade rm = (False, rm)"
  by (simp add: canTrade_def)

subsection \<open>Loss streak, position size and kill switch\<close>

text \<open>
  C6. A fresh manager with balance 10000 that records three trades of -50 has a
  consecutive-loss counter of 3 and a daily drawdown of -1.5 percent; \<open>canTrade\<close> then
  returns false and leaves the manager as it is, with \<open>tradingEnabled\<close> still true.
  Recording a trade whose profit is at least zero sets the counter to zero, in every
  manager.
\<close>

theorem C6_three_losses_block_without_disabling:
  fixes p :: jsnum and rm :: RiskManager
  defines "rm3 \<equiv> recordTrade (Num (- 50)) (recordTrade (Num (- 50))
                    (recordTrade (Num (- 50)) (newRiskManager (Num 10000))))"
  shows "consecutiveLosses rm3 = 3
       \<and> getDailyDrawdown rm3 = Num (- 3 / 2)
       \<and> getMonthlyDrawdown rm3 = Num (- 3 / 2)
       \<and> canTrade rm3 = (False, rm3)
       \<and> tradingEnabled rm3
       \<and> (jge p (Num 0) \<longrightarrow> consecutiveLosses (recordTrade p rm3) = 0)
       \<and> (jge p (Num 0) \<longrightarrow> consecutiveLosses (recordTrade p rm) = 0)"
proof -
  have nl: "jge p (Num 0) \<Longrightarrow> \<not> jlt p (Num 0)"
    by (cases p) (simp_all add: jge_def)
  have reset: "\<And>r. jge p (Num 0) \<Longrightarrow> consecutiveLosses (recordTrade p r) = 0"
    using nl by (simp add: recordTrade_def Let_def)
  have c: "consecutiveLosses rm3 = 3"
    by (simp add: rm3_def recordTrade_def newRiskManager_def Let_def)
  have b: "currentBalance rm3 = Num 9850 \<and> dailyStartBalance rm3 = Num 10000
         \<and> monthlyStartBalance rm3 = Num 10000 \<and> tradingEnabled rm3"
    by (simp add: rm3_def recordTrade_def newRiskManager_def Let_def)
  have d: "getDailyDrawdown rm3 = Num (- 3 / 2)"
    using b by (simp add: getDailyDrawdown_def jsub_def)
  have m: "getMonthlyDrawdown rm3 = Num (- 3 / 2)"
    using b by (simp add: getMonthlyDrawdown_def jsub_def)
  have ct: "canTrade rm3 = (False, rm3)"
    using b c d m by (simp add: canTrade_def dailyLossLimit_def monthlyKillSwitch_def)
  show ?thesis
    using b c d m ct reset by simp
qed

theorem C6_witness:
  "jge (Num 20) (Num 0)
   \<and> consecutiveLosses (recordTrade (Num 20) (recordTrade (Num (- 50)) (recordTrade (Num (- 50))
        (recordTrade (Num (- 50)) (newRiskManager (Num 10000)))))) = 0
   \<and> consecutiveLosses (recordTrade (Num 20) (newRiskManager (Num 500))) = 0"
  using C6_three_losses_block_without_disabling [of "Num 20" "newRiskManager (Num 500)"]
  by (simp add: jge_def)

text \<open>
  C7. \<open>calculatePositionSize\<close> returns exactly 0.5 percent of the current
  balance when the weekly drawdown is strictly above -8 percent, and exactly 70 percent of
  that amount, which is 0.35 percent of the current balance, when the weekly drawdown is
  at or below -8 percent; the reduced size is strictly less than the base size when the
  balance is positive (and finite).
\<close>

theorem C7_position_size:
  "(jgt (getWeeklyDrawdown rm) (Num (- 8))
      \<longrightarrow> calculatePositionSize rm = jmul (currentBalance rm) (Num (5 / 1000)))
 \<and> (jle (getWeeklyDrawdown rm) (Num (- 8))
      \<longrightarrow> calculatePositionSize rm
            = jmul (jmul (currentBalance rm) (Num (5 / 1000))) (Num (7 / 10))
        \<and> calculatePositionSize rm = jmul (currentBalance rm) (Num (35 / 10000)))
 \<and> (jle (getWeeklyDrawdown rm) (Num (- 8)) \<and> currentBalance rm = Num b \<and> 0 < b
      \<longrightarrow> jlt (calculatePositionSize rm) (jmul (currentBalance rm) (Num (5 / 1000))))"
proof -
  have base: "jmul (currentBalance rm) (jdiv positionRiskPercentage (Num 100))
              = jmul (currentBalance rm) (Num (5 / 1000))"
    by (simp add: positionRiskPercentage_def)
  have above: "jgt (getWeeklyDrawdown rm) (Num (- 8))
      \<Longrightarrow> calculatePositionSize rm = jmul (currentBalance rm) (Num (5 / 1000))"
    using jgt_not_jle [of "getWeeklyDrawdown rm" "Num (- 8)"]
    by (simp add: calculatePositionSize_def Let_def weeklyDrawdownLimit_def base)
  have below: "jle (getWeeklyDrawdown rm) (Num (- 8))
      \<Longrightarrow> calculatePositionSize rm
          = jmul (jmul (currentBalance rm) (Num (5 / 1000))) (Num (7 / 10))"
    by (simp add: calculatePositionSize_def Let_def weeklyDrawdownLimit_def base)
  have less: "jle (getWeeklyDrawdown rm) (Num (- 8)) \<Longrightarrow> currentBalance rm = Num b \<Longrightarrow> 0 < b
      \<Longrightarrow> jlt (calculatePositionSize rm) (jmul (currentBalance rm) (Num (5 / 1000)))"
    using below by simp
  show ?thesis
    using above below less jmul_reduced [of "currentBalance rm"] by simp
qed

theorem C7_witness:
  "jle (getWeeklyDrawdown ((newRiskManager (Num 10000))\<lparr>currentBalance := Num 9100\<rparr>)) (Num (- 8))
   \<and> calculatePositionSize ((newRiskManager (Num 10000))\<lparr>currentBalance := Num 9100\<rparr>)
       = Num (3185 / 100)
   \<and> jlt (calculatePositionSize ((newRiskManager (Num 10000))\<lparr>currentBalance := Num 9100\<rparr>))
          (Num (455 / 10))
   \<and> jgt (getWeeklyDrawdown (newRiskManager (Num 10000))) (Num (- 8))
   \<and> calculatePositionSize (newRiskManager (Num 10000)) = Num 50"
  using C7_position_size [of "(newRiskManager (Num 10000))\<lparr>currentBalance := Num 9100\<rparr>" 9100]
        C7_position_size [of "newRiskManager (Num 10000)" 10000]
  by (simp add: newRiskManager_def getWeeklyDrawdown_def jsub_def jgt_def)

text \<open>
  At a balance of zero, with the weekly drawdown at -100 percent, the reduced size is
  zero, as the base size is: it is not strictly less.
\<close>

theorem C7_counterexample:
  "jle (getWeeklyDrawdown drainedManager) (Num (- 8))
   \<and> currentBalance drainedManager = Num 0
   \<and> calculatePositionSize drainedManager = Num 0
   \<and> \<not> jlt (calculatePositionSize drainedManager)
            (jmul (currentBalance drainedManager) (Num (5 / 1000)))"
  by (simp add: drainedManager_def recordTrade_def newRiskManager_def Let_def
      getWeeklyDrawdown_def jsub_def calculatePositionSize_def positionRiskPercentage_def
      weeklyDrawdownLimit_def)

text \<open>
  C3. Once \<open>canTrade\<close>, with trading enabled, observes a daily drawdown of
  at most -3 percent or a monthly drawdown of at most -15 percent, it returns false and
  sets \<open>tradingEnabled\<close> to false; after that every \<open>canTrade\<close> returns false and
  \<open>tradingEnabled\<close> stays false, whatever calls of the manager come in between: the
  baseline resets rebase their baseline and do not restore \<open>tradingEnabled\<close>.
\<close>

theorem C3_kill_switch_stays_off:
  assumes en: "tradingEnabled rm"
    and breach: "jle (getDailyDrawdown rm) (Num (- 3)) \<or> jle (getMonthlyDrawdown rm) (Num (- 15))"
  shows "canTrade rm = (False, rm\<lparr>tradingEnabled := False\<rparr>)
       \<and> \<not> tradingEnabled (afterCalls cs (snd (canTrade rm)))
       \<and> canTrade (afterCalls cs (snd (canTrade rm)))
           = (False, afterCalls cs (snd (canTrade rm)))"
proof -
  have first: "canTrade rm = (False, rm\<lparr>tradingEnabled := False\<rparr>)"
    using en breach by (auto simp add: canTrade_def dailyLossLimit_def monthlyKillSwitch_def)
  then have "\<not> tradingEnabled (snd (canTrade rm))"
    by simp
  then have off: "\<not> tradingEnabled (afterCalls cs (snd (canTrade rm)))"
    by (rule afterCalls_disabled)
  show ?thesis
    using first off canTrade_disabled [OF off] by simp
qed

theorem C3_witness:
  "tradingEnabled ((newRiskManager (Num 10000))\<lparr>currentBalance := Num 9650\<rparr>)
   \<and> jle (getDailyDrawdown ((newRiskManager (Num 10000))\<lparr>currentBalance := Num 9650\<rparr>)) (Num (- 3))
   \<and> \<not> fst (canTrade (afterCalls [CallResetDaily, CallRecordTrade (Num 500), CallResetMonthly]
         (snd (canTrade ((newRiskManager (Num 10000))\<lparr>currentBalance := Num 9650\<rparr>)))))"
proof -
  let ?rm = "(newRiskManager (Num 10000))\<lparr>currentBalance := Num 9650\<rparr>"
  let ?cs = "[CallResetDaily, CallRecordTrade (Num 500), CallResetMonthly]"
  have en: "tradingEnabled ?rm"
    by (simp add: newRiskManager_def)
  have br: "jle (getDailyDrawdown ?rm) (Num (- 3))"
    by (simp add: newRiskManager_def getDailyDrawdown_def jsub_def)
  have "canTrade (afterCalls ?cs (snd (canTrade ?rm)))
        = (False, afterCalls ?cs (snd (canTrade ?rm)))"
    using C3_kill_switch_stays_off [OF en disjI1 [OF br], of ?cs] by blast
  then have "\<not> fst (canTrade (afterCalls ?cs (snd (canTrade ?rm))))"
    by (simp only: fst_conv not_False_eq_True)
  with en br show ?thesis
    by blast
qed

text \<open>
  After the kill switch has tripped at a balance of 9650, each baseline reset leaves
  \<open>tradingEnabled\<close> false and \<open>canTrade\<close> false; so do all three together, although
  every drawdown is then zero and there is no losing streak.
\<close>

theorem C3_counterexample:
  "\<not> tradingEnabled killedManager
   \<and> getDailyDrawdown rebasedManager = Num 0
   \<and> getWeeklyDrawdown rebasedManager = Num 0
   \<and> getMonthlyDrawdown rebasedManager = Num 0
   \<and> consecutiveLosses rebasedManager = 0
   \<and> \<not> tradingEnabled rebasedManager
   \<and> \<not> fst (canTrade rebasedManager)
   \<and> \<not> fst (canTrade (resetDaily killedManager))
   \<and> \<not> fst (canTrade (resetWeekly killedManager))
   \<and> \<not> fst (canTrade (resetMonthly killedManager))"
proof -
  have k: "killedManager
           = (newRiskManager (Num 10000))\<lparr>currentBalance := Num 9650, tradingEnabled := False\<rparr>"
    by (simp add: killedManager_def canTrade_def newRiskManager_def getDailyDrawdown_def
        jsub_def dailyLossLimit_def)
  show ?thesis
    unfolding rebasedManager_def k
    by (simp add: newRiskManager_def resetDaily_def resetWeekly_def resetMonthly_def
        getDailyDrawdown_def getWeeklyDrawdown_def getMonthlyDrawdown_def jsub_def canTrade_def)
qed

section \<open>Properties of the TradingEngine\<close>

subsection \<open>Closing a position\<close>

lemma closePosition_Inr:
  assumes "index < length (positions e)"
    and "getAsset (dataEngine e) (position.symbol (positions e ! index)) = Some a"
  shows "\<exists>e'. closePosition index reason now e = Inr e'
         \<and> positions e' = take index (positions e) @ drop (Suc index) (positions e)
         \<and> dataEngine e' = dataEngine e
         \<and> butlast (closedTrades e') = closedTrades e
         \<and> length (closedTrades e') = Suc (length (closedTrades e))
         \<and> closeReason (last (closedTrades e')) = reason
         \<and> riskManager e'
             = recordTrade (ToNumber (finalPnl (last (closedTrades e')))) (riskManager e)"
  using assms by (simp add: closePosition_def Let_def)

lemma closePosition_MANUAL:
  assumes "index < length (positions e)"
    and "getAsset (dataEngine e) (position.symbol (positions e ! index)) = Some a"
  shows "\<exists>e'. closePosition index MANUAL now e = Inr e'
         \<and> finalPnl (last (closedTrades e')) = None
         \<and> currentBalance (riskManager e') = NaN"
  using assms by (simp add: closePosition_def Let_def recordTrade_def jadd_NaN_right)

text \<open>
  What a manual close does in general: for a slot that holds a position it appends one
  closed trade with reason \<open>MANUAL\<close> and removes the position, but the realized P&L is
  \<open>undefined\<close> and the balance becomes \<open>NaN\<close>; for a slot that holds none it changes
  nothing.
\<close>

lemma manualClosePosition_effect:
  assumes "0 \<le> i" and "i < int (length (positions e))"
    and "getAsset (dataEngine e) (position.symbol (positions e ! nat i)) = Some a"
  shows "\<exists>e'. manualClosePosition i now e = Inr e'
         \<and> butlast (closedTrades e') = closedTrades e
         \<and> length (closedTrades e') = Suc (length (closedTrades e))
         \<and> closeReason (last (closedTrades e')) = MANUAL
         \<and> finalPnl (last (closedTrades e')) = None
         \<and> positions e' = take (nat i) (positions e) @ drop (Suc (nat i)) (positions e)
         \<and> currentBalance (riskManager e') = NaN"
proof -
  have "nat i < length (positions e)" using assms by simp
  from closePosition_Inr [OF this assms(3), of MANUAL now]
       closePosition_MANUAL [OF this assms(3), of now] assms(1,2)
  show ?thesis
    by (auto simp add: manualClosePosition_def)
qed

lemma manualClosePosition_empty_slot:
  "\<not> (0 \<le> i \<and> i < int (length (positions e))) \<Longrightarrow> manualClosePosition i now e = Inr e"
  by (auto simp add: manualClosePosition_def)

text \<open>
  C1. A manual close is specified to add the mark-to-market P&L of the position to the
  balance. On the engine with balance 10000 and one LONG on BTC opened at 65000, with
  BTC now at 65100, the mark-to-market P&L of the position is 6750/130065 (about 0.05);
  \<open>manualClosePosition(0)\<close> removes the position and appends one closed trade with
  reason \<open>MANUAL\<close>, but the trade's \<open>finalPnl\<close> is \<open>undefined\<close> and the balance is
  \<open>NaN\<close> afterwards.
\<close>

theorem C1_manual_close_loses_the_balance:
  "currentBalance (riskManager manualCloseInput) = Num 10000
   \<and> map (\<lambda>p. livePnl p (Num 65100)) (positions manualCloseInput) = [Num (6750 / 130065)]
   \<and> (case manualClosePosition 0 2 manualCloseInput of
        Inl err \<Rightarrow> False
      | Inr e' \<Rightarrow> currentBalance (riskManager e') = NaN
                \<and> map finalPnl (closedTrades e') = [None]
                \<and> map closeReason (closedTrades e') = [MANUAL]
                \<and> positions e' = [])"
  by (simp add: manualCloseInput_def openedLong_def openPosition_def exampleEngine_def
      newTradingEngine_def assetBTC_def assetETH_def assetSOL_def
      constructedAssets_def Let_def jsub_def stopLossPercentage_def livePnl_def
      manualClosePosition_def closePosition_def setPrice_def getAsset_def recordTrade_def
      newRiskManager_def calculatePositionSize_def getWeeklyDrawdown_def
      positionRiskPercentage_def weeklyDrawdownLimit_def)

subsection \<open>The preconditions of a cycle\<close>

text \<open>
  C5. \<open>runAnalysisCycle\<close> returns \<open>null\<close>, and no rejection, whenever the engine is
  not running, or \<open>canTrade\<close> is false, or two positions are open, or one position is
  open and its \<open>tp1Hit\<close> is false, or fewer than 5000 ms have passed since the previous
  cycle started.
\<close>

theorem C5_no_cycle_is_null:
  assumes "\<not> isRunning e \<or> \<not> fst (canTrade (riskManager e))
         \<or> 2 \<le> length (positions e)
         \<or> (length (positions e) = 1 \<and> \<not> tp1Hit (positions e ! 0))
         \<or> now - lastAnalysisTime e < 5000"
  shows "fst (runAnalysisCycle now d e) = Null"
  using assms
  by (auto simp add: runAnalysisCycle_def maxPositions_def Let_def split: prod.splits)

theorem C5_witness:
  "isRunning (start openedLong) \<and> fst (canTrade (riskManager (start openedLong)))
   \<and> length (positions (start openedLong)) = 1 \<and> \<not> tp1Hit (positions (start openedLong) ! 0)
   \<and> fst (runAnalysisCycle 10000 exampleDraws (start openedLong)) = Null
   \<and> \<not> isRunning exampleEngine
   \<and> fst (runAnalysisCycle 10000 exampleDraws exampleEngine) = Null"
  using C5_no_cycle_is_null [of "start openedLong" 10000 exampleDraws]
        C5_no_cycle_is_null [of exampleEngine 10000 exampleDraws]
  by (simp add: start_def openedLong_def openPosition_def exampleEngine_def newTradingEngine_def
      Let_def canTrade_def newRiskManager_def getDailyDrawdown_def getMonthlyDrawdown_def
      jsub_def dailyLossLimit_def monthlyKillSwitch_def)

text \<open>
  When no precondition stops it, the cycle runs: on the started example engine with
  passing indicators and draws it opens a LONG on BTC with a checklist score of 23; the
  cycle asked for two seconds later returns \<open>null\<close>; and with a low alignment draw the
  first cycle is rejected at level 2.
\<close>

lemma runAnalysisCycle_approves:
  "(case fst (runAnalysisCycle 10000 exampleDraws readyEngine) of
      Approved a p \<Rightarrow> asset.symbol a = ''BTC'' \<and> direction p = LONG \<and> slot p = 1
                       \<and> pattern p = ''Chain_Block'' \<and> checklistScore p = Some 23
                       \<and> size_notional p = Num 50
    | _ \<Rightarrow> False)
   \<and> length (positions (snd (runAnalysisCycle 10000 exampleDraws readyEngine))) = 1
   \<and> fst (runAnalysisCycle 12000 exampleDraws
             (snd (runAnalysisCycle 10000 exampleDraws readyEngine))) = Null
   \<and> fst (runAnalysisCycle 10000 (exampleDraws\<lparr>alignmentDraw := 1 / 10\<rparr>) readyEngine)
       = Rejected assetBTC 2 ''Insufficient timeframe alignment''"
  by (simp add: readyEngine_def start_def exampleEngine_def newTradingEngine_def
      runAnalysisCycle_def canTrade_def newRiskManager_def getDailyDrawdown_def
      getMonthlyDrawdown_def getWeeklyDrawdown_def jsub_def dailyLossLimit_def
      monthlyKillSwitch_def maxPositions_def Let_def exampleDraws_def selectAsset_def pick_def
      constructedAssets_def assetBTC_def assetETH_def assetSOL_def runCascade_def
      level1SafetyGates_def getIndicators_def jgt_def jge_def maxDrawdownAlert_def
      level2StructuralAnalysis_def patterns_def level3RiskAssessment_def
      calculatePositionSize_def positionRiskPercentage_def weeklyDrawdownLimit_def
      level4SentimentCheck_def run23PointChecklist_def checklistPoints_def openPosition_def
      stopLossPercentage_def setChecklistScore_def)

subsection \<open>Slot indices\<close>

text \<open>
  C9. \<open>openPosition\<close> gives the new position the slot index one plus the number of
  positions open before the call, and appends it. So when, of two open positions, the one
  at index 0 is closed while the one with slot index 2 stays open, the next position
  opened receives slot index 2 as well: the two open positions both carry slot index 2.
\<close>

theorem C9_slot_is_count_plus_one:
  "slot (fst (openPosition a d pat now e)) = length (positions e) + 1
   \<and> positions (snd (openPosition a d pat now e))
       = positions e @ [fst (openPosition a d pat now e)]
   \<and> (positions e = [p1, p2] \<and> slot p2 = 2
        \<and> getAsset (dataEngine e) (position.symbol p1) = Some a1
      \<longrightarrow> (\<exists>e1. closePosition 0 reason t e = Inr e1 \<and> positions e1 = [p2]
             \<and> map slot (positions (snd (openPosition a d pat now e1))) = [2, 2]))"
proof -
  have op: "\<And>e. slot (fst (openPosition a d pat now e)) = length (positions e) + 1
      \<and> positions (snd (openPosition a d pat now e))
          = positions e @ [fst (openPosition a d pat now e)]"
    by (simp add: openPosition_def Let_def)
  have cl: "positions e = [p1, p2] \<Longrightarrow> slot p2 = 2
        \<Longrightarrow> getAsset (dataEngine e) (position.symbol p1) = Some a1
      \<Longrightarrow> \<exists>e1. closePosition 0 reason t e = Inr e1 \<and> positions e1 = [p2]
             \<and> map slot (positions (snd (openPosition a d pat now e1))) = [2, 2]"
    using closePosition_Inr [of 0 e a1 reason t] op by auto
  show ?thesis using op cl by blast
qed

theorem C9_witness:
  "map slot (positions twoOpen) = [1, 2]
   \<and> (\<exists>e1. closePosition 0 TP2 5 twoOpen = Inr e1 \<and> positions e1 = [positions twoOpen ! 1]
         \<and> map slot (positions (snd (openPosition assetSOL LONG ''Pattern3'' 7 e1))) = [2, 2])"
proof -
  have ps: "positions twoOpen = [positions twoOpen ! 0, positions twoOpen ! 1]"
    by (simp add: twoOpen_def openPosition_def Let_def exampleEngine_def newTradingEngine_def)
  have sl: "map slot (positions twoOpen) = [1, 2]"
    by (simp add: twoOpen_def openPosition_def Let_def exampleEngine_def newTradingEngine_def)
  have s2: "slot (positions twoOpen ! 1) = 2"
    by (simp add: twoOpen_def openPosition_def Let_def exampleEngine_def newTradingEngine_def)
  have ga: "getAsset (dataEngine twoOpen) (position.symbol (positions twoOpen ! 0)) = Some assetBTC"
    by (simp add: twoOpen_def openPosition_def Let_def exampleEngine_def newTradingEngine_def
        getAsset_def constructedAssets_def assetBTC_def)
  show ?thesis
    using sl ps s2 ga
      C9_slot_is_count_plus_one [where e = twoOpen and ?p1.0 = "positions twoOpen ! 0"
        and ?p2.0 = "positions twoOpen ! 1" and ?a1.0 = assetBTC and reason = TP2 and t = 5
        and a = assetSOL and d = LONG and pat = "''Pattern3''" and now = 7]
    by blast
qed

subsection \<open>Order of the numbers\<close>

lemma jlt_trans: "jlt a b \<Longrightarrow> jlt b c \<Longrightarrow> jlt a c"
  by (cases a; cases b; cases c) simp_all

lemma jlt_jle_trans: "jlt a b \<Longrightarrow> jle b c \<Longrightarrow> jlt a c"
  by (cases a; cases b; cases c) simp_all

lemma jlt_not_jle: "jlt a b \<Longrightarrow> \<not> jle b a"
  by (cases a; cases b) simp_all

lemma jlt_not_refl: "\<not> jlt a a"
  by (cases a) simp_all

subsection \<open>Visiting a position\<close>

lemma afterTP1Check_fields:
  "direction (afterTP1Check p x) = direction p \<and> entryPrice (afterTP1Check p x) = entryPrice p
   \<and> tp1 (afterTP1Check p x) = tp1 p \<and> tp2 (afterTP1Check p x) = tp2 p
   \<and> position.symbol (afterTP1Check p x) = position.symbol p
   \<and> size_notional (afterTP1Check p x) = size_notional p \<and> slot (afterTP1Check p x) = slot p"
  by (simp add: afterTP1Check_def Let_def)

lemma levelsOrdered_afterTP1Check: "levelsOrdered p \<Longrightarrow> levelsOrdered (afterTP1Check p x)"
  by (simp add: levelsOrdered_def afterTP1Check_def Let_def)

lemma crossesTP2_afterTP1Check: "crossesTP2 (afterTP1Check p x) x = crossesTP2 p x"
  by (simp add: crossesTP2_def afterTP1Check_fields)

lemma levelsOrdered_exclusive:
  assumes "levelsOrdered p" and "crossesTP2 p x"
  shows "\<not> crossesSL p x"
proof (cases "direction p")
  case LONG
  with assms have a: "jlt (entryPrice p) (tp1 p)" "jlt (tp1 p) (tp2 p)" "jle (tp2 p) x"
    and s: "stopLoss p = entryPrice p \<or> jlt (stopLoss p) (entryPrice p)"
    by (auto simp add: levelsOrdered_def crossesTP2_def jge_def split: if_splits)
  from a have "jlt (entryPrice p) x"
    using jlt_trans jlt_jle_trans by blast
  with s have "jlt (stopLoss p) x"
    using jlt_trans by auto
  then show ?thesis
    using LONG jlt_not_jle by (simp add: crossesSL_def)
next
  case SHORT
  with assms have a: "jlt (tp1 p) (entryPrice p)" "jlt (tp2 p) (tp1 p)" "jle x (tp2 p)"
    and s: "stopLoss p = entryPrice p \<or> jlt (entryPrice p) (stopLoss p)"
    by (auto simp add: levelsOrdered_def crossesTP2_def jgt_def split: if_splits)
  from a have "jlt x (entryPrice p)"
    by (cases x; cases "tp2 p"; cases "tp1 p"; cases "entryPrice p") simp_all
  with s have "jlt x (stopLoss p)"
    using jlt_trans by auto
  then show ?thesis
    using SHORT jlt_not_jle by (simp add: crossesSL_def jge_def)
qed

lemma visitPosition_closes:
  assumes i: "index < length (positions e)"
    and a: "getAsset (dataEngine e) (position.symbol (positions e ! index)) = Some a"
    and lo: "levelsOrdered (positions e ! index)"
    and cl: "crossesTP2 (positions e ! index) (price a)
             \<or> crossesSL (afterTP1Check (positions e ! index) (price a)) (price a)"
  shows "\<exists>e'. visitPosition index now e = Inr e'
          \<and> positions e' = take index (positions e) @ drop (Suc index) (positions e)
          \<and> dataEngine e' = dataEngine e
          \<and> length (closedTrades e') = Suc (length (closedTrades e))"
proof -
  let ?p = "positions e ! index"
  let ?p2 = "afterTP1Check ?p (price a)"
  let ?rm = "if \<not> tp1Hit ?p \<and> crossesTP1 ?p (price a)
             then recordTrade (jmul (jmul (size_notional ?p) (Num (1 / 2))) (Num (5 / 1000)))
                              (riskManager e)
             else riskManager e"
  let ?e2 = "e\<lparr>positions := (positions e)[index := ?p2], riskManager := ?rm\<rparr>"
  have i2: "index < length (positions ?e2)" using i by simp
  have a2: "getAsset (dataEngine ?e2) (position.symbol (positions ?e2 ! index)) = Some a"
    using i a by (simp add: afterTP1Check_fields)
  have rem: "take index (positions ?e2) @ drop (Suc index) (positions ?e2)
             = take index (positions e) @ drop (Suc index) (positions e)"
    by simp
  show ?thesis
  proof (cases "crossesTP2 ?p (price a)")
    case True
    then have t2: "crossesTP2 ?p2 (price a)" by (simp add: crossesTP2_afterTP1Check)
    have nsl: "\<not> crossesSL ?p2 (price a)"
      using levelsOrdered_exclusive [OF levelsOrdered_afterTP1Check [OF lo] t2] .
    from closePosition_Inr [OF i2 a2, of TP2 now] rem
    show ?thesis
      using a t2 nsl by (auto simp add: visitPosition_def Let_def)
  next
    case False
    then have t2: "\<not> crossesTP2 ?p2 (price a)" by (simp add: crossesTP2_afterTP1Check)
    from False cl have sl: "crossesSL ?p2 (price a)" by simp
    from closePosition_Inr [OF i2 a2, of SL now] rem
    show ?thesis
      using a t2 sl by (auto simp add: visitPosition_def Let_def)
  qed
qed

text \<open>
  The TP1 rule, for the position that the loop visits: with \<open>tp1Hit\<close> false and the
  price across tp1, but not across tp2 nor across the entry price (the stop after its
  move), the visit writes the live P&L, sets \<open>tp1Hit\<close>, moves the stop to the entry
  price and records the profit of half the size at 0.5 percent. With one open position
  \<open>updatePositions\<close> is that visit.
\<close>

lemma visitPosition_TP1_rule:
  assumes "index < length (positions e)"
    and "p = positions e ! index"
    and "getAsset (dataEngine e) (position.symbol p) = Some a"
    and "\<not> tp1Hit p" and "crossesTP1 p (price a)" and "\<not> crossesTP2 p (price a)"
    and "\<not> crossesSL (p\<lparr>stopLoss := entryPrice p\<rparr>) (price a)"
  shows "visitPosition index now e =
           Inr (e\<lparr>positions := (positions e)[index :=
                      p\<lparr>pnl := livePnl p (price a), tp1Hit := True, stopLoss := entryPrice p\<rparr>],
                   riskManager := recordTrade (jmul (jmul (size_notional p) (Num (1 / 2)))
                                                    (Num (5 / 1000)))
                                              (riskManager e)\<rparr>)"
  using assms
  by (cases "direction (positions e ! index)")
     (simp_all add: visitPosition_def afterTP1Check_def Let_def crossesTP1_def crossesTP2_def
       crossesSL_def)

lemma updatePositions_single:
  "positions e = [p] \<Longrightarrow> updatePositions now e = visitPosition 0 now e"
  by (simp add: updatePositions_def split: sum.splits)

subsection \<open>Evaluation of the example run\<close>

lemmas example_defs = openedLong_def openPosition_def exampleEngine_def
      newTradingEngine_def assetBTC_def assetETH_def assetSOL_def
      constructedAssets_def Let_def jsub_def stopLossPercentage_def livePnl_def
      closePosition_def setPrice_def getAsset_def recordTrade_def
      newRiskManager_def calculatePositionSize_def getWeeklyDrawdown_def
      positionRiskPercentage_def weeklyDrawdownLimit_def updatePositions_def
      visitPosition_def afterTP1Check_def crossesTP1_def crossesTP2_def crossesSL_def
      jge_def jgt_def

lemma afterTP1_eval:
  "updatePositions 2 tp1Reached = Inr afterTP1
   \<and> map tp1Hit (positions afterTP1) = [True]
   \<and> map stopLoss (positions afterTP1) = [Num (650325 / 10)]
   \<and> map entryPrice (positions afterTP1) = [Num (650325 / 10)]
   \<and> map direction (positions afterTP1) = [LONG]
   \<and> currentBalance (riskManager afterTP1) = Num (10000 + 1 / 8)"
  unfolding afterTP1_def
  by (simp add: tp1Reached_def example_defs)

subsection \<open>The position after a closed one\<close>

text \<open>
  C10. With two open positions, the first with its levels ordered: when the price of
  the first position's instrument is across its tp2, or across its stop, the call of
  \<open>updatePositions\<close> closes the first position and returns with the second one as it
  was before the call: its P&L, its \<open>tp1Hit\<close> and its stop are unchanged and it is
  still open, whatever the price of its own instrument.
\<close>

theorem C10_next_position_skipped:
  assumes ps: "positions e = [p0, p1]"
    and a: "getAsset (dataEngine e) (position.symbol p0) = Some a"
    and lo: "levelsOrdered p0"
    and cl: "crossesTP2 p0 (price a) \<or> crossesSL (afterTP1Check p0 (price a)) (price a)"
  shows "\<exists>e'. updatePositions now e = Inr e' \<and> positions e' = [p1]
          \<and> length (closedTrades e') = Suc (length (closedTrades e))"
proof -
  have "\<exists>e'. visitPosition 0 now e = Inr e'
          \<and> positions e' = take 0 (positions e) @ drop (Suc 0) (positions e)
          \<and> dataEngine e' = dataEngine e
          \<and> length (closedTrades e') = Suc (length (closedTrades e))"
    using ps a lo cl by (intro visitPosition_closes) simp_all
  then obtain e' where v: "visitPosition 0 now e = Inr e'" and p: "positions e' = [p1]"
    and c: "length (closedTrades e') = Suc (length (closedTrades e))"
    using ps by auto
  have "updatePositions now e = forEachPosition (Suc (Suc 0)) 0 now e"
    using ps by (simp add: updatePositions_def)
  also have "\<dots> = forEachPosition (Suc 0) (Suc 0) now e'"
    using ps v by simp
  also have "\<dots> = Inr e'"
    using p by simp
  finally show ?thesis using p c by simp
qed

theorem C10_witness:
  "positions skipInput = [positions skipInput ! 0, positions skipInput ! 1]
   \<and> crossesTP2 (positions skipInput ! 0) (Num 66000)
   \<and> crossesTP1 (positions skipInput ! 1) (Num 3220)
   \<and> \<not> tp1Hit (positions skipInput ! 1)
   \<and> (\<exists>e'. updatePositions 4 skipInput = Inr e' \<and> positions e' = [positions skipInput ! 1]
         \<and> length (closedTrades e') = Suc (length (closedTrades skipInput)))"
proof -
  have ev: "updatePositions 2 tp1Reached = Inr afterTP1"
    using afterTP1_eval by simp
  have ps: "positions skipInput = [positions skipInput ! 0, positions skipInput ! 1]"
    unfolding skipInput_def twoLongs_def afterTP1_def
    by (simp add: tp1Reached_def example_defs)
  have a: "getAsset (dataEngine skipInput) (position.symbol (positions skipInput ! 0))
           = Some (assetBTC\<lparr>price := Num 66000\<rparr>)"
    unfolding skipInput_def twoLongs_def afterTP1_def
    by (simp add: tp1Reached_def example_defs)
  have lo: "levelsOrdered (positions skipInput ! 0)"
    unfolding skipInput_def twoLongs_def afterTP1_def
    by (simp add: tp1Reached_def example_defs levelsOrdered_def)
  have c2: "crossesTP2 (positions skipInput ! 0) (Num 66000)"
    unfolding skipInput_def twoLongs_def afterTP1_def
    by (simp add: tp1Reached_def example_defs)
  have c1: "crossesTP1 (positions skipInput ! 1) (Num 3220) \<and> \<not> tp1Hit (positions skipInput ! 1)"
    unfolding skipInput_def twoLongs_def afterTP1_def
    by (simp add: tp1Reached_def example_defs)
  have cl: "crossesTP2 (positions skipInput ! 0) (price (assetBTC\<lparr>price := Num 66000\<rparr>))
            \<or> crossesSL (afterTP1Check (positions skipInput ! 0) (price (assetBTC\<lparr>price := Num 66000\<rparr>)))
                 (price (assetBTC\<lparr>price := Num 66000\<rparr>))"
    using c2 by simp
  show ?thesis
    using ps c2 c1 C10_next_position_skipped [OF ps a lo cl, of 4] by blast
qed

text \<open>
  C4. \<open>updatePositions\<close> is specified to apply the TP1 rule to every open LONG
  position with \<open>tp1Hit\<close> false whose instrument is at or above tp1 (below tp2, above
  the stop). In the example run the LONG on ETH is such a position, at index 1, with ETH
  at 3220; the LONG on BTC at index 0 closes at its tp2 in the same call. After the call
  the ETH position is as before, with \<open>tp1Hit\<close> false and its stop below the entry
  price, and the balance has grown by the BTC profit of 3/10 alone.
\<close>

theorem C4_skipped_position_misses_tp1:
  "map position.symbol (positions skipInput) = [''BTC'', ''ETH'']
   \<and> map direction (positions skipInput) = [LONG, LONG]
   \<and> map tp1Hit (positions skipInput) = [True, False]
   \<and> map (\<lambda>a. (asset.symbol a, price a)) (assets (dataEngine skipInput))
       = [(''BTC'', Num 66000), (''ETH'', Num 3220), (''SOL'', Num 150)]
   \<and> jge (Num 3220) (tp1 (positions skipInput ! 1))
   \<and> jlt (Num 3220) (tp2 (positions skipInput ! 1))
   \<and> jgt (Num 3220) (stopLoss (positions skipInput ! 1))
   \<and> jlt (stopLoss (positions skipInput ! 1)) (entryPrice (positions skipInput ! 1))
   \<and> size_notional (positions skipInput ! 1) = Num (400005 / 8000)
   \<and> currentBalance (riskManager skipInput) = Num (80001 / 8)
   \<and> (case updatePositions 4 skipInput of
        Inl err \<Rightarrow> False
      | Inr e' \<Rightarrow> positions e' = [positions skipInput ! 1]
                \<and> map tp1Hit (positions e') = [False]
                \<and> map closeReason (closedTrades e') = [TP2]
                \<and> currentBalance (riskManager e') = Num (80001 / 8 + 3 / 10))"
  unfolding skipInput_def twoLongs_def afterTP1_def
  by (simp add: tp1Reached_def example_defs)

subsection \<open>The ordering of the levels in reachable states\<close>

lemma getAsset_mem: "getAsset de s = Some a \<Longrightarrow> a \<in> set (assets de)"
  by (auto simp add: getAsset_def find_Some_iff)

lemma openPosition_levelsOrdered:
  assumes "positivePrice a"
  shows "levelsOrdered (fst (openPosition a d pat now e))"
proof -
  from assms obtain x where x: "price a = Num x" "0 < x"
    by (auto simp add: positivePrice_def split: jsnum.splits)
  show ?thesis
    using x by (cases d)
      (simp_all add: openPosition_def Let_def levelsOrdered_def jsub_def jgt_def
        stopLossPercentage_def)
qed

lemma closePosition_subset:
  "closePosition index reason now e = Inr e'
   \<Longrightarrow> dataEngine e' = dataEngine e \<and> set (positions e') \<subseteq> set (positions e)"
  by (auto simp add: closePosition_def Let_def split: if_splits option.splits
      dest: in_set_takeD in_set_dropD)

lemma visitPosition_wellFormed:
  assumes "wellFormed e" and "index < length (positions e)"
    and "visitPosition index now e = Inr e'"
  shows "wellFormed e'"
proof -
  let ?p = "positions e ! index"
  from assms(3) obtain a where a: "getAsset (dataEngine e) (position.symbol ?p) = Some a"
    by (auto simp add: visitPosition_def Let_def split: option.splits)
  let ?p2 = "afterTP1Check ?p (price a)"
  let ?rm = "if \<not> tp1Hit ?p \<and> crossesTP1 ?p (price a)
             then recordTrade (jmul (jmul (size_notional ?p) (Num (1 / 2))) (Num (5 / 1000)))
                              (riskManager e)
             else riskManager e"
  let ?e2 = "e\<lparr>positions := (positions e)[index := ?p2], riskManager := ?rm\<rparr>"
  have "levelsOrdered ?p" using assms(1,2) by (simp add: wellFormed_def list_all_length)
  then have "levelsOrdered ?p2" by (rule levelsOrdered_afterTP1Check)
  then have wf2: "wellFormed ?e2"
    using assms(1) by (auto simp add: wellFormed_def list_all_iff dest: set_update_subset_insert [THEN subsetD])
  have sub: "\<And>i r x y. wellFormed x \<Longrightarrow> closePosition i r now x = Inr y \<Longrightarrow> wellFormed y"
    using closePosition_subset by (fastforce simp add: wellFormed_def list_all_iff)
  from assms(3) a obtain e3
    where e3: "(if crossesTP2 ?p2 (price a) then closePosition index TP2 now ?e2 else Inr ?e2)
               = Inr e3"
      and e': "(if crossesSL ?p2 (price a) then closePosition index SL now e3 else Inr e3)
               = Inr e'"
    by (auto simp add: visitPosition_def Let_def split: sum.splits)
  from e3 wf2 have "wellFormed e3"
    using sub by (auto split: if_splits)
  with e' show ?thesis
    using sub by (auto split: if_splits)
qed

lemma forEachPosition_wellFormed:
  "wellFormed e \<Longrightarrow> forEachPosition n k now e = Inr e' \<Longrightarrow> wellFormed e'"
proof (induction n arbitrary: k e)
  case 0
  then show ?case by simp
next
  case (Suc n)
  show ?case
  proof (cases "k < length (positions e)")
    case True
    with Suc.prems(2) obtain e1 where v: "visitPosition k now e = Inr e1"
      and r: "forEachPosition n (Suc k) now e1 = Inr e'"
      by (auto split: sum.splits)
    from visitPosition_wellFormed [OF Suc.prems(1) True v] r show ?thesis
      by (rule Suc.IH)
  next
    case False
    with Suc.prems(2) have "forEachPosition n (Suc k) now e = Inr e'" by simp
    with Suc.prems(1) show ?thesis by (rule Suc.IH)
  qed
qed

lemma reachable_wellFormed: "reachable e \<Longrightarrow> wellFormed e"
proof (induction rule: reachable.induct)
  case (constructed de b)
  then show ?case by (simp add: wellFormed_def newTradingEngine_def)
next
  case (priceMoved e x s)
  then show ?case
    by (auto simp add: wellFormed_def setPrice_def pricesPositive_def list_all_iff positivePrice_def)
next
  case (opened e s a d pat now)
  then have "positivePrice a"
    using getAsset_mem by (fastforce simp add: wellFormed_def pricesPositive_def list_all_iff)
  then have "levelsOrdered (fst (openPosition a d pat now e))"
    by (rule openPosition_levelsOrdered)
  moreover have "positions (snd (openPosition a d pat now e))
                 = positions e @ [fst (openPosition a d pat now e)]"
    and "dataEngine (snd (openPosition a d pat now e)) = dataEngine e"
    by (simp_all add: openPosition_def Let_def)
  ultimately show ?case
    using opened.IH by (simp add: wellFormed_def)
next
  case (updated e now e')
  then show ?case
    using forEachPosition_wellFormed by (simp add: updatePositions_def)
qed

text \<open>
  C2. In every state reachable by \<open>openPosition\<close> and
  \<open>updatePositions\<close>, every open LONG position has entry price, tp1 and tp2 in strictly
  ascending order, with the stop strictly below the entry price while \<open>tp1Hit\<close> is
  false and equal to the entry price once \<open>tp1Hit\<close> is true; every open SHORT position
  has the mirrored ordering.
\<close>

theorem C2_levels_ordered:
  "reachable e \<Longrightarrow> list_all levelsOrdered (positions e)"
  using reachable_wellFormed by (simp add: wellFormed_def)

lemma reachable_afterTP1: "reachable afterTP1"
proof -
  have r0: "reachable exampleEngine"
    unfolding exampleEngine_def
    by (rule reachable.constructed)
       (simp add: pricesPositive_def positivePrice_def constructedAssets_def assetBTC_def
          assetETH_def assetSOL_def)
  have "getAsset (dataEngine exampleEngine) ''BTC'' = Some assetBTC"
    by (simp add: example_defs)
  from reachable.opened [OF r0 this] have "reachable openedLong"
    by (simp add: openedLong_def)
  then have "reachable tp1Reached"
    unfolding tp1Reached_def by (rule reachable.priceMoved) simp
  then show ?thesis
    using afterTP1_eval reachable.updated by blast
qed

theorem C2_witness:
  "reachable afterTP1 \<and> map tp1Hit (positions afterTP1) = [True]
   \<and> list_all levelsOrdered (positions afterTP1)"
  using reachable_afterTP1 C2_levels_ordered [OF reachable_afterTP1] afterTP1_eval by simp

text \<open>
  After the LONG on BTC has hit tp1 its stop is at the entry price, so the strict ordering
  of the stop below the entry price does not hold in that reachable state.
\<close>

theorem C2_counterexample:
  "reachable afterTP1
   \<and> map direction (positions afterTP1) = [LONG]
   \<and> map stopLoss (positions afterTP1) = map entryPrice (positions afterTP1)
   \<and> \<not> list_all strictlyOrdered (positions afterTP1)"
proof -
  from afterTP1_eval obtain p where p: "positions afterTP1 = [p]"
    by (auto simp add: map_eq_Cons_conv)
  with afterTP1_eval have "direction p = LONG" and "stopLoss p = entryPrice p"
    by simp_all
  then have "\<not> strictlyOrdered p"
    by (simp add: strictlyOrdered_def jlt_not_refl)
  with p afterTP1_eval reachable_afterTP1 show ?thesis
    by simp
qed

section \<open>Properties of the DataEngine\<close>

subsection \<open>The loop of the RSI computes the sums of the specification\<close>

lemma length_deltas: "length (deltas xs) = length xs - 1"
  by (induction xs rule: deltas.induct) simp_all

lemma deltas_drop:
  assumes "1 \<le> i" and "i < length xs"
  shows "deltas (drop (i - 1) xs) = (xs ! i - xs ! (i - 1)) # deltas (drop i xs)"
proof -
  from assms have "drop (i - 1) xs = xs ! (i - 1) # drop i xs"
    using Cons_nth_drop_Suc [of "i - 1" xs] by simp
  moreover from assms have "drop i xs = xs ! i # drop (Suc i) xs"
    using Cons_nth_drop_Suc [of i xs] by simp
  ultimately show ?thesis by simp
qed

lemma close_Num:
  assumes "list_all (\<lambda>c. isNum (close c)) h" and "i < length h"
  shows "close (h ! i) = Num (map (\<lambda>c. realOf (close c)) h ! i)"
proof -
  from assms have "isNum (close (h ! i))" by (simp add: list_all_length)
  then show ?thesis using assms(2) by (cases "close (h ! i)") simp_all
qed

lemma rsiLoop_sums:
  assumes "list_all (\<lambda>c. isNum (close c)) h" and "1 \<le> i" and "i + n \<le> length h"
  shows "rsiLoop h i n (Num g, Num l) =
           (Num (g + sum_list (filter (\<lambda>d. 0 < d)
                     (take n (deltas (drop (i - 1) (map (\<lambda>c. realOf (close c)) h)))))),
            Num (l + sum_list (map abs (filter (\<lambda>d. d < 0)
                     (take n (deltas (drop (i - 1) (map (\<lambda>c. realOf (close c)) h))))))))"
  using assms
proof (induction n arbitrary: i g l)
  case 0
  then show ?case by simp
next
  case (Suc n)
  let ?rs = "map (\<lambda>c. realOf (close c)) h"
  from Suc.prems have i: "i < length h" "i - 1 < length h" by simp_all
  have ci: "close (h ! i) = Num (?rs ! i)" and cp: "close (h ! (i - 1)) = Num (?rs ! (i - 1))"
    using close_Num [OF Suc.prems(1)] i by blast+
  have d: "deltas (drop (i - 1) ?rs) = (?rs ! i - ?rs ! (i - 1)) # deltas (drop (Suc i - 1) ?rs)"
    using deltas_drop [of i ?rs] Suc.prems(2) i by simp
  have ih: "\<And>g l. rsiLoop h (Suc i) n (Num g, Num l) =
           (Num (g + sum_list (filter (\<lambda>d. 0 < d) (take n (deltas (drop (Suc i - 1) ?rs))))),
            Num (l + sum_list (map abs (filter (\<lambda>d. d < 0)
                     (take n (deltas (drop (Suc i - 1) ?rs)))))))"
    using Suc.IH [of "Suc i"] Suc.prems by simp
  show ?case
    unfolding d
    by (simp add: ci cp jsub_def jgt_def Let_def ih del: nth_map One_nat_def)
qed

lemma gains_nonneg: "0 \<le> sum_list (filter (\<lambda>d. 0 < d) (ds :: real list))"
  by (induction ds) simp_all

lemma losses_nonneg: "0 \<le> sum_list (map abs (filter (\<lambda>d. d < 0) (ds :: real list)))"
  by (induction ds) simp_all

lemma rsiSpec_range:
  assumes "0 < period"
  shows "0 \<le> rsiSpec closes period \<and> rsiSpec closes period \<le> 100"
proof -
  let ?ds = "deltas (drop (length closes - (period + 1)) closes)"
  let ?g = "sum_list (filter (\<lambda>d. 0 < d) ?ds) / real period"
  let ?l = "sum_list (map abs (filter (\<lambda>d. d < 0) ?ds)) / real period"
  have g: "0 \<le> ?g" using gains_nonneg assms by simp
  have l: "0 \<le> ?l" using losses_nonneg assms by simp
  show ?thesis
  proof (cases "?l = 0")
    case True
    then show ?thesis by (simp add: rsiSpec_def Let_def)
  next
    case False
    then have "0 \<noteq> ?l" by simp
    from order.not_eq_order_implies_strict [OF this l] have "0 < ?l" .
    with g have r: "0 \<le> ?g / ?l" by (rule divide_nonneg_pos)
    then have "0 < 100 / (1 + ?g / ?l)" and "100 / (1 + ?g / ?l) \<le> 100"
      by (simp_all add: field_simps)
    then show ?thesis using False by (simp add: rsiSpec_def Let_def)
  qed
qed

text \<open>
  C8. For a candle history with finite closes and a positive period, \<open>calculateRSI\<close>
  returns 50 when the history has fewer than \<open>period + 1\<close> candles and otherwise the
  RSI of the specification over the most recent \<open>period\<close> close-to-close deltas (gains
  the sum of the positive deltas, losses the sum of the absolute values of the negative
  ones, each averaged over \<open>period\<close>; 100 when the average loss is zero, else
  \<open>100 - 100 / (1 + avgGain / avgLoss)\<close>); the value lies between 0 and 100.
\<close>

theorem C8_rsi:
  assumes fin: "list_all (\<lambda>c. isNum (close c)) history" and p: "0 < period"
  shows "calculateRSI history period =
           Num (if length history < period + 1 then 50
                else rsiSpec (map (\<lambda>c. realOf (close c)) history) period)
       \<and> jle (Num 0) (calculateRSI history period)
       \<and> jle (calculateRSI history period) (Num 100)"
proof -
  let ?rs = "map (\<lambda>c. realOf (close c)) history"
  have eq: "calculateRSI history period =
           Num (if length history < period + 1 then 50 else rsiSpec ?rs period)"
  proof (cases "length history < period + 1")
    case True
    then show ?thesis by (simp add: calculateRSI_def)
  next
    case False
    let ?X = "drop (length history - (period + 1)) ?rs"
    let ?ds = "deltas ?X"
    let ?G = "sum_list (filter (\<lambda>d. 0 < d) ?ds)"
    let ?L = "sum_list (map abs (filter (\<lambda>d. d < 0) ?ds))"
    have len: "length ?ds = period"
      using False by (simp add: length_deltas)
    have idx: "length history - period - 1 = length history - (period + 1)"
      by simp
    have loop: "rsiLoop history (length history - period) period (Num 0, Num 0) = (Num ?G, Num ?L)"
      using rsiLoop_sums [OF fin, of "length history - period" period 0 0] False p len
      by (simp add: idx)
    have G: "0 \<le> ?G" by (rule gains_nonneg)
    have L: "0 \<le> ?L" by (rule losses_nonneg)
    show ?thesis
    proof (cases "?L = 0")
      case True
      then show ?thesis
        using False p loop by (simp add: calculateRSI_def rsiSpec_def Let_def jeq_def)
    next
      case nz: False
      then have "0 \<noteq> ?L" by simp
      from order.not_eq_order_implies_strict [OF this L] have Lp: "0 < ?L" .
      have "0 \<le> ?G / real period" and "0 < ?L / real period"
        using G Lp p by simp_all
      then have "0 \<le> (?G / real period) / (?L / real period)"
        by (rule divide_nonneg_pos)
      then have "1 + (?G / real period) / (?L / real period) \<noteq> 0"
        by linarith
      then show ?thesis
        using False p loop nz
        by (simp add: calculateRSI_def rsiSpec_def Let_def jeq_def jsub_def)
    qed
  qed
  show ?thesis
    using eq rsiSpec_range [OF p, of ?rs] by simp
qed

theorem C8_witness:
  "list_all (\<lambda>c. isNum (close c)) exampleHistory \<and> (0 :: nat) < 3
   \<and> calculateRSI exampleHistory 3 = Num (250 / 3)
   \<and> jle (Num 0) (calculateRSI exampleHistory 3)
   \<and> jle (calculateRSI exampleHistory 3) (Num 100)"
  using C8_rsi [of exampleHistory 3]
  by (simp add: exampleHistory_def candleAt_def rsiSpec_def Let_def)

text \<open>
  With the closes 10, 12, 11 and 14 and a period of 4 the history is one candle short of
  \<open>period + 1\<close>: \<open>calculateRSI\<close> returns 50, which is neither 100 nor the value
  250/3 that the formula gives for these closes. For the empty history and the period 14
  it returns 50 as well, where the average loss is zero and the formula gives 100.
\<close>

theorem C8_counterexample:
  "calculateRSI exampleHistory 4 = Num 50
   \<and> rsiSpec (map (\<lambda>c. realOf (close c)) exampleHistory) 4 = 250 / 3
   \<and> calculateRSI exampleHistory 4 \<noteq> Num 100
   \<and> calculateRSI exampleHistory 4
       \<noteq> Num (rsiSpec (map (\<lambda>c. realOf (close c)) exampleHistory) 4)
   \<and> calculateRSI [] 14 = Num 50
   \<and> rsiSpec [] 14 = 100
   \<and> calculateRSI [] 14 \<noteq> Num (rsiSpec [] 14)"
  by (simp add: calculateRSI_def rsiSpec_def exampleHistory_def candleAt_def Let_def)

end
